theory Spec2Isabelle
  imports Main "HOL-Library.Word"
begin

unbundle bit_operations_syntax

section \<open>The result type of the fallible formatter constructor\<close>

text \<open>
  The header \<^verbatim>\<open>diplomat_result_box_ICU4XFixedDecimalFormatter_ICU4XError.h\<close> declares
  one type and no function:
  \<^verbatim>\<open>
  typedef struct diplomat_result_box_ICU4XFixedDecimalFormatter_ICU4XError {
      union {
          ICU4XFixedDecimalFormatter* ok;
          ICU4XError err;
      };
      bool is_ok;
  } diplomat_result_box_ICU4XFixedDecimalFormatter_ICU4XError;
  \<close>
  The struct is a \<^theory_text>\<open>record\<close>. Its anonymous union is a block of bytes that both
  members are read from and written to; \<open>is_ok\<close> is a \<open>bool\<close>. The width of a pointer
  belongs to the platform, and \<^verbatim>\<open>ICU4XError.h\<close> (the enumeration) is not among the
  sources, so both widths are type parameters \<open>'p\<close> and \<open>'e\<close> of the members' values
  (\<open>'p word\<close> an address, \<open>'e word\<close> an error tag).
\<close>

subsection \<open>Object representations\<close>

type_synonym byte = "8 word"

text \<open>The bytes a \<open>'a word\<close> occupies: \<open>LENGTH('a)\<close> bits rounded up to whole bytes.\<close>

definition size_of :: "'a::len itself \<Rightarrow> nat" where
  "size_of t = (LENGTH('a) + 7) div 8"

text \<open>A value as \<open>n\<close> bytes, least significant byte first, and back.\<close>

fun to_bytes :: "nat \<Rightarrow> 'a::len word \<Rightarrow> byte list" where
  "to_bytes 0 w = []"
| "to_bytes (Suc n) w = ucast w # to_bytes n (drop_bit 8 w)"

fun of_bytes :: "byte list \<Rightarrow> 'a::len word" where
  "of_bytes [] = 0"
| "of_bytes (b # bs) = ucast b OR push_bit 8 (of_bytes bs)"

subsection \<open>The struct\<close>

text \<open>The two members of the anonymous union.\<close>

datatype member = OK | ERR

text \<open>
  \<open>un\<close> is the storage of the anonymous union. \<open>active\<close> is not a field of the struct:
  it records which member of the union was stored last (\<open>None\<close>: none yet), which is
  what C calls the member whose value the union holds.
\<close>

record result_box =
  un :: "byte list"
  active :: "member option"
  is_ok :: bool

text \<open>Reading \<^verbatim>\<open>r.ok\<close> and \<^verbatim>\<open>r.err\<close>: both members start at the first byte of the union.\<close>

definition ok :: "result_box \<Rightarrow> 'p::len word" where
  "ok r = of_bytes (take (size_of TYPE('p)) (un r))"

definition err :: "result_box \<Rightarrow> 'e::len word" where
  "err r = of_bytes (take (size_of TYPE('e)) (un r))"

text \<open>
  The assignments \<^verbatim>\<open>r.ok = p\<close> and \<^verbatim>\<open>r.err = e\<close>: the member's bytes replace the
  first bytes of the union, the bytes behind them stay.
\<close>

definition set_ok :: "'p::len word \<Rightarrow> result_box \<Rightarrow> result_box" where
  "set_ok p r =
     r\<lparr>un := to_bytes (size_of TYPE('p)) p @ drop (size_of TYPE('p)) (un r),
       active := Some OK\<rparr>"

definition set_err :: "'e::len word \<Rightarrow> result_box \<Rightarrow> result_box" where
  "set_err e r =
     r\<lparr>un := to_bytes (size_of TYPE('e)) e @ drop (size_of TYPE('e)) (un r),
       active := Some ERR\<rparr>"

text \<open>The size of the union: that of its larger member.\<close>

definition sizeof_union :: "'p::len itself \<Rightarrow> 'e::len itself \<Rightarrow> nat" where
  "sizeof_union tp te = max (size_of tp) (size_of te)"

text \<open>A member is valid when it is the one the union holds.\<close>

definition valid :: "member \<Rightarrow> result_box \<Rightarrow> bool" where
  "valid m r = (active r = Some m)"

subsection \<open>What the discriminant tells\<close>

text \<open>
  The states of a result as the specification's state machine names them, and the state
  a caller reads off \<open>is_ok\<close> (\<^verbatim>\<open>if (r.is_ok) ... else ...\<close>).
\<close>

datatype discriminant_state = Uninitialized | Success | Failure

definition tag :: "result_box \<Rightarrow> discriminant_state" where
  "tag r = (if is_ok r then Success else Failure)"

subsection \<open>The constructor that fills the struct\<close>

text \<open>
  Modelled from the spec: \<open>construct\<close>, the function that returns this struct, and the
  constructor it wraps are not among the sources; the header declares the type only.
  Section 4.1 of the specification gives the contract. The wrapped constructor is a
  parameter: on its parameters it either fails with an error code (\<open>Inl e\<close>) or succeeds
  with the address of the formatter it allocated (\<open>Inr h\<close>). \<open>construct\<close> puts a
  failure into the union's error member and sets the discriminant to failure, and puts
  the handle of a success into the handle member and sets the discriminant to success.
  \<open>slot\<close> is the storage the result is built in, with whatever it held before.
\<close>

definition construct ::
  "('a \<Rightarrow> 'e::len word + 'p::len word) \<Rightarrow> 'a \<Rightarrow> result_box \<Rightarrow> result_box" where
  "construct wrapped params slot =
     (case wrapped params of
        Inl e \<Rightarrow> (set_err e slot)\<lparr>is_ok := False\<rparr>
      | Inr h \<Rightarrow> (set_ok h slot)\<lparr>is_ok := True\<rparr>)"

section \<open>Bytes and values\<close>

lemma length_to_bytes [simp]: "length (to_bytes n w) = n"
  by (induction n arbitrary: w) simp_all

lemma of_to_bytes: "of_bytes (to_bytes n w) = take_bit (8 * n) w"
proof (induction n arbitrary: w)
  case 0
  show ?case by simp
next
  case (Suc n)
  have "ucast (ucast w :: byte) OR push_bit 8 (take_bit (8 * n) (drop_bit 8 w)) =
        take_bit (8 + 8 * n) w"
    by (rule bit_eqI) (auto simp add: bit_simps)
  then show ?case by (simp add: Suc)
qed

lemma size_of_covers: "LENGTH('a::len) \<le> 8 * size_of TYPE('a)"
  by (simp add: size_of_def)

lemma of_to_bytes_size_of: "of_bytes (to_bytes (size_of TYPE('a)) w) = (w :: 'a::len word)"
  by (simp add: of_to_bytes take_bit_word_eq_self size_of_covers)

lemma of_bytes_take_bit:
  "(of_bytes (take n bs) :: 'a::len word) = take_bit (8 * n) (of_bytes bs)"
proof (induction bs arbitrary: n)
  case Nil
  show ?case by simp
next
  case (Cons b bs)
  show ?case
  proof (cases n)
    case 0
    then show ?thesis by simp
  next
    case (Suc k)
    have "ucast b OR push_bit 8 (take_bit (8 * k) (of_bytes bs :: 'a word)) =
          take_bit (8 + 8 * k) (ucast b OR push_bit 8 (of_bytes bs :: 'a word))"
      by (rule bit_eqI) (auto simp add: bit_simps dest: bit_imp_le_length)
    then show ?thesis using Suc Cons.IH [of k] by simp
  qed
qed

lemma of_bytes_take:
  "LENGTH('a) \<le> 8 * n \<Longrightarrow> (of_bytes (take n bs) :: 'a::len word) = of_bytes bs"
  by (simp add: of_bytes_take_bit take_bit_word_eq_self)

lemma ucast_of_bytes:
  "LENGTH('b) \<le> LENGTH('a) \<Longrightarrow>
   (ucast (of_bytes bs :: 'a::len word) :: 'b::len word) = of_bytes bs"
proof (induction bs)
  case Nil
  show ?case by simp
next
  case (Cons b bs)
  have "(ucast (of_bytes (b # bs) :: 'a word) :: 'b word) =
        ucast b OR push_bit 8 (ucast (of_bytes bs :: 'a word))"
    using Cons.prems by (intro bit_eqI) (auto simp add: bit_simps)
  then show ?case using Cons by simp
qed

text \<open>Read at two widths from the same first byte, the narrower value is the low part
  of the wider one.\<close>

lemma view_narrow:
  assumes "LENGTH('b) \<le> LENGTH('a)"
  shows "(of_bytes (take (size_of TYPE('b)) bs) :: 'b::len word) =
         ucast (of_bytes (take (size_of TYPE('a)) bs) :: 'a::len word)"
proof -
  have "(ucast (of_bytes (take (size_of TYPE('a)) bs) :: 'a word) :: 'b word) =
        of_bytes (take (size_of TYPE('a)) bs)"
    by (simp add: ucast_of_bytes assms)
  also have "\<dots> = of_bytes (take (size_of TYPE('b)) (take (size_of TYPE('a)) bs))"
    by (simp only: of_bytes_take [OF size_of_covers])
  also have "\<dots> = of_bytes (take (size_of TYPE('b)) bs)"
    using assms by (simp add: size_of_def min_def)
  finally show ?thesis by simp
qed

lemma low_bits_ucast:
  assumes "LENGTH('b) \<le> LENGTH('a)"
  shows "take_bit (min LENGTH('a) LENGTH('b)) (unat (ucast (x :: 'a::len word) :: 'b::len word)) =
         take_bit (min LENGTH('a) LENGTH('b)) (unat x)"
  using assms by (simp add: min_def unsigned_ucast_eq)

section \<open>The members of the union\<close>

lemma ok_set_ok: "ok (set_ok p r) = p"
  by (simp add: ok_def set_ok_def of_to_bytes_size_of)

lemma err_set_err: "err (set_err e r) = e"
  by (simp add: err_def set_err_def of_to_bytes_size_of)

lemma err_low_part_of_ok:
  "LENGTH('e) \<le> LENGTH('p) \<Longrightarrow> (err r :: 'e::len word) = ucast (ok r :: 'p::len word)"
  unfolding ok_def err_def by (rule view_narrow)

lemma ok_low_part_of_err:
  "LENGTH('p) \<le> LENGTH('e) \<Longrightarrow> (ok r :: 'p::len word) = ucast (err r :: 'e::len word)"
  unfolding ok_def err_def by (rule view_narrow)

lemma views_agree:
  "take_bit (min LENGTH('p) LENGTH('e)) (unat (ok r :: 'p::len word)) =
   take_bit (min LENGTH('p) LENGTH('e)) (unat (err r :: 'e::len word))"
proof (cases "LENGTH('e) \<le> LENGTH('p)")
  case True
  show ?thesis
    using low_bits_ucast [OF True, of "ok r :: 'p word"]
    by (simp add: err_low_part_of_ok [OF True])
next
  case False
  then have le: "LENGTH('p) \<le> LENGTH('e)" by simp
  show ?thesis
    using low_bits_ucast [OF le, of "err r :: 'e word"]
    by (simp add: ok_low_part_of_err [OF le] min.commute)
qed

text \<open>A store into a union that is as large as its larger member stays inside it.\<close>

lemma set_ok_keeps_size:
  "length (un r) = sizeof_union TYPE('p) TYPE('e) \<Longrightarrow>
   length (un (set_ok (p :: 'p::len word) r)) = sizeof_union TYPE('p) TYPE('e::len)"
  by (simp add: set_ok_def sizeof_union_def)

lemma set_err_keeps_size:
  "length (un r) = sizeof_union TYPE('p) TYPE('e) \<Longrightarrow>
   length (un (set_err (e :: 'e::len word) r)) = sizeof_union TYPE('p::len) TYPE('e)"
  by (simp add: set_err_def sizeof_union_def)

text \<open>
  With 8-byte pointers and a 4-byte error tag: after \<^verbatim>\<open>r.ok = 0x1122334455667788\<close> the
  member \<open>err\<close> reads the pointer's low four bytes, whatever \<open>r\<close> held before; after
  \<^verbatim>\<open>r.err = 5\<close> on a union holding that pointer, \<open>ok\<close> reads \<^verbatim>\<open>0x1122334400000005\<close>.
\<close>

lemma example_err_after_set_ok:
  "(err (set_ok (0x1122334455667788 :: 64 word) r) :: 32 word) = 0x55667788"
  by (simp add: err_low_part_of_ok [where 'p = 64] ok_set_ok)

lemma example_ok_after_set_err:
  "(ok (set_err (5 :: 32 word) (set_ok (0x1122334455667788 :: 64 word) r)) :: 64 word) =
   0x1122334400000005"
proof -
  have s64: "size_of TYPE(64) = 8" and s32: "size_of TYPE(32) = 4"
    by (simp_all add: size_of_def)
  have a: "to_bytes 8 (0x1122334455667788 :: 64 word) =
           [0x88, 0x77, 0x66, 0x55, 0x44, 0x33, 0x22, 0x11]"
    by code_simp
  have b: "to_bytes 4 (5 :: 32 word) = [5, 0, 0, 0]"
    by code_simp
  have c: "(of_bytes [5, 0, 0, 0, 0x44, 0x33, 0x22, 0x11] :: 64 word) = 0x1122334400000005"
    by code_simp
  show ?thesis
    by (simp add: ok_def set_ok_def set_err_def s64 s32 a b c)
qed

text \<open>No value of the struct holds that pointer in \<open>ok\<close> and the error tag 5 in \<open>err\<close>.\<close>

lemma example_no_independent_values:
  "\<nexists>r. (ok r :: 64 word) = 0x1122334455667788 \<and> (err r :: 32 word) = 5"
proof
  assume "\<exists>r. (ok r :: 64 word) = 0x1122334455667788 \<and> (err r :: 32 word) = 5"
  then obtain r where o: "(ok r :: 64 word) = 0x1122334455667788" and e: "(err r :: 32 word) = 5"
    by blast
  have "(err r :: 32 word) = ucast (ok r :: 64 word)"
    by (rule err_low_part_of_ok) simp
  with o e show False by simp
qed

section \<open>Results of the constructor\<close>

lemma ok_is_ok_update [simp]: "ok (r\<lparr>is_ok := b\<rparr>) = ok r"
  by (simp add: ok_def)

lemma err_is_ok_update [simp]: "err (r\<lparr>is_ok := b\<rparr>) = err r"
  by (simp add: err_def)

lemma valid_is_ok_update [simp]: "valid m (r\<lparr>is_ok := b\<rparr>) = valid m r"
  by (simp add: valid_def)

text \<open>
  A wrapped constructor that fails with error code 3 on the parameter 0 and returns the
  formatter at address \<^verbatim>\<open>0x1000\<close> otherwise, on a platform with 8-byte pointers and a
  4-byte error tag.
\<close>

lemma example_construct_failure:
  "\<not> is_ok (construct (\<lambda>n :: nat. if n = 0 then Inl (3 :: 32 word) else Inr (0x1000 :: 64 word)) 0 slot) \<and>
   (err (construct (\<lambda>n :: nat. if n = 0 then Inl (3 :: 32 word) else Inr (0x1000 :: 64 word)) 0 slot)
      :: 32 word) = 3"
  by (simp add: construct_def err_set_err)

lemma example_construct_success:
  "is_ok (construct (\<lambda>n :: nat. if n = 0 then Inl (3 :: 32 word) else Inr (0x1000 :: 64 word)) 7 slot) \<and>
   (ok (construct (\<lambda>n :: nat. if n = 0 then Inl (3 :: 32 word) else Inr (0x1000 :: 64 word)) 7 slot)
      :: 64 word) = 0x1000"
  by (simp add: construct_def ok_set_ok)

text \<open>
  C1. A result that \<open>construct\<close> produces has exactly one valid union member, and it is
  the one \<open>is_ok\<close> indicates: \<open>ok\<close> is valid exactly when \<open>is_ok\<close> is true, \<open>err\<close>
  exactly when it is false. The valid member holds what the wrapped constructor
  returned: its handle when \<open>is_ok\<close> is true, its error code when \<open>is_ok\<close> is false.
  This holds whatever the storage of the result held before.
\<close>

theorem construct_discriminant_exclusive:
  fixes wrapped :: "'a \<Rightarrow> 'e::len word + 'p::len word"
  shows
    "valid OK (construct wrapped params slot) = is_ok (construct wrapped params slot) \<and>
     valid ERR (construct wrapped params slot) = (\<not> is_ok (construct wrapped params slot)) \<and>
     valid OK (construct wrapped params slot) \<noteq> valid ERR (construct wrapped params slot) \<and>
     (case wrapped params of
        Inl e \<Rightarrow> \<not> is_ok (construct wrapped params slot) \<and>
                 (err (construct wrapped params slot) :: 'e word) = e
      | Inr h \<Rightarrow> is_ok (construct wrapped params slot) \<and>
                 (ok (construct wrapped params slot) :: 'p word) = h)"
proof (cases "wrapped params")
  case (Inl e)
  have v: "valid ERR (set_err e slot) \<and> \<not> valid OK (set_err e slot)"
    by (simp add: valid_def set_err_def)
  show ?thesis
    using v by (simp add: construct_def Inl err_set_err)
next
  case (Inr h)
  have v: "valid OK (set_ok h slot) \<and> \<not> valid ERR (set_ok h slot)"
    by (simp add: valid_def set_ok_def)
  show ?thesis
    using v by (simp add: construct_def Inr ok_set_ok)
qed

section \<open>The union and the discriminant\<close>

text \<open>
  C9. \<open>ok\<close> and \<open>err\<close> are members of one anonymous union and occupy the same storage
  from its first byte on. A stored pointer's bytes and a stored error tag's bytes both
  begin at byte 0 of the union. On every value of the struct the two members agree on
  the bits they share (the low \<open>min LENGTH('p) LENGTH('e)\<close> ones), so they never hold two
  independent values. Storing into \<open>ok\<close> makes the shared bits of \<open>err\<close> those of the
  pointer, storing into \<open>err\<close> makes the shared bits of \<open>ok\<close> those of the error tag:
  what the other member held there is overwritten, and the member just stored reads back.
  At no time are both members the one the union holds.
\<close>

theorem union_members_share_storage:
  fixes r :: result_box and p :: "'p::len word" and e :: "'e::len word"
  shows
    "take (size_of TYPE('p)) (un (set_ok p r)) = to_bytes (size_of TYPE('p)) p \<and>
     take (size_of TYPE('e)) (un (set_err e r)) = to_bytes (size_of TYPE('e)) e \<and>
     take_bit (min LENGTH('p) LENGTH('e)) (unat (ok r :: 'p word)) =
       take_bit (min LENGTH('p) LENGTH('e)) (unat (err r :: 'e word)) \<and>
     take_bit (min LENGTH('p) LENGTH('e)) (unat (err (set_ok p r) :: 'e word)) =
       take_bit (min LENGTH('p) LENGTH('e)) (unat p) \<and>
     take_bit (min LENGTH('p) LENGTH('e)) (unat (ok (set_err e r) :: 'p word)) =
       take_bit (min LENGTH('p) LENGTH('e)) (unat e) \<and>
     (ok (set_ok p r) :: 'p word) = p \<and>
     (err (set_err e r) :: 'e word) = e \<and>
     valid OK (set_ok p r) \<and> \<not> valid ERR (set_ok p r) \<and>
     valid ERR (set_err e r) \<and> \<not> valid OK (set_err e r) \<and>
     \<not> (valid OK r \<and> valid ERR r)"
proof -
  have a: "take (size_of TYPE('p)) (un (set_ok p r)) = to_bytes (size_of TYPE('p)) p"
    by (simp add: set_ok_def)
  have b: "take (size_of TYPE('e)) (un (set_err e r)) = to_bytes (size_of TYPE('e)) e"
    by (simp add: set_err_def)
  have c: "take_bit (min LENGTH('p) LENGTH('e)) (unat (ok r :: 'p word)) =
           take_bit (min LENGTH('p) LENGTH('e)) (unat (err r :: 'e word))"
    by (rule views_agree)
  have d: "take_bit (min LENGTH('p) LENGTH('e)) (unat (err (set_ok p r) :: 'e word)) =
           take_bit (min LENGTH('p) LENGTH('e)) (unat p)"
    using views_agree [of "set_ok p r", where 'p = 'p and 'e = 'e]
    by (simp add: ok_set_ok)
  have e: "take_bit (min LENGTH('p) LENGTH('e)) (unat (ok (set_err e r) :: 'p word)) =
           take_bit (min LENGTH('p) LENGTH('e)) (unat e)"
    using views_agree [of "set_err e r", where 'p = 'p and 'e = 'e]
    by (simp add: err_set_err)
  have f: "valid OK (set_ok p r) \<and> \<not> valid ERR (set_ok p r)"
    by (simp add: valid_def set_ok_def)
  have g: "valid ERR (set_err e r) \<and> \<not> valid OK (set_err e r)"
    by (simp add: valid_def set_err_def)
  have h: "\<not> (valid OK r \<and> valid ERR r)"
    by (simp add: valid_def)
  from a b c d e f g h show ?thesis
    by (simp only: ok_set_ok err_set_err simp_thms)
qed

text \<open>
  C10. \<open>is_ok\<close> is a \<open>bool\<close>: it takes the two values true and false, each on some
  value of the struct, and no others. The three states of the specification's state
  machine cannot be told apart by it (no encoding of them into the discriminant is
  injective), and the state a caller reads off a result is Success or Failure, never
  Uninitialized.
\<close>

theorem is_ok_two_valued:
  "range (is_ok :: result_box \<Rightarrow> bool) = {True, False} \<and>
   card (range (is_ok :: result_box \<Rightarrow> bool)) = 2 \<and>
   (\<nexists>enc :: discriminant_state \<Rightarrow> bool. inj enc) \<and>
   (\<forall>r :: result_box. tag r = Success \<or> tag r = Failure) \<and>
   (\<forall>r :: result_box. tag r \<noteq> Uninitialized)"
proof -
  have "b \<in> range (is_ok :: result_box \<Rightarrow> bool)" for b
    by (rule range_eqI [where x = "\<lparr>un = [], active = None, is_ok = b\<rparr>"]) simp
  then have r: "range (is_ok :: result_box \<Rightarrow> bool) = {True, False}"
    by auto
  have c: "card (range (is_ok :: result_box \<Rightarrow> bool)) = 2"
    by (simp add: r)
  have n: "\<nexists>enc :: discriminant_state \<Rightarrow> bool. inj enc"
  proof
    assume "\<exists>enc :: discriminant_state \<Rightarrow> bool. inj enc"
    then obtain enc :: "discriminant_state \<Rightarrow> bool" where i: "inj enc" ..
    have "enc Uninitialized = enc Success \<or> enc Uninitialized = enc Failure \<or>
          enc Success = enc Failure"
      by (cases "enc Uninitialized"; cases "enc Success"; cases "enc Failure") simp_all
    with i show False
      by (auto dest: injD)
  qed
  have t: "\<forall>r :: result_box. tag r = Success \<or> tag r = Failure"
    by (simp add: tag_def)
  have u: "\<forall>r :: result_box. tag r \<noteq> Uninitialized"
    by (simp add: tag_def)
  from r c n t u show ?thesis
    by (simp only: simp_thms)
qed

end
